theory Spec2Isabelle
  imports Main "HOL-Library.Option_ord" "HOL-Library.Multiset"
begin

section \<open>Documents\<close>

text \<open>
  The module \<^verbatim>\<open>mflix/db.py\<close> reads two collections. Only the fields the module
  touches are kept. An \<^verbatim>\<open>ObjectId\<close> is a number; a BSON date is a number of milliseconds;
  a numeric field that may be missing (or null) is an \<open>int option\<close>.
\<close>

type_synonym oid = nat

record movie =
  m_id :: oid
  m_title :: string
  m_cast :: "string list"
  m_genres :: "string list"
  m_runtime :: "int option"
  m_metacritic :: "int option"
  m_numReviews :: "int option"

record comment =
  c_id :: oid
  c_movie_id :: oid
  c_name :: string
  c_email :: string
  c_text :: string
  c_date :: int

text \<open>
  The \<^verbatim>\<open>_id\<close> of a \<^verbatim>\<open>$bucket\<close> output document is the lower boundary of the bucket, or
  the \<^verbatim>\<open>default\<close> literal, which is \<^verbatim>\<open>"other"\<close> in both uses.
\<close>

datatype bucket_id = Lower int | Other

text \<open>
  The documents that flow through a cursor or a pipeline: stored documents and the shapes
  the stages of this module produce from them.
\<close>

datatype doc =
    Movie movie
  | Scored movie nat                  \<comment> \<open>a movie with the projected \<^verbatim>\<open>score\<close>\<close>
  | Comment comment
  | Joined doc "doc list"             \<comment> \<open>a document with the field \<^verbatim>\<open>comments\<close> added\<close>
  | CountDoc nat                      \<comment> \<open>\<^verbatim>\<open>{"count": n}\<close>\<close>
  | BucketDoc bucket_id nat           \<comment> \<open>\<^verbatim>\<open>{"_id": b, "count": n}\<close>\<close>
  | GroupDoc "string option" nat      \<comment> \<open>\<^verbatim>\<open>{"_id": email, "count": n}\<close>\<close>
  | FacetDoc "(string \<times> doc list) list"

section \<open>Errors\<close>

text \<open>
  What the driver raises is either an \<^verbatim>\<open>OperationFailure\<close> (the server refused or
  aborted the command; the subclasses are not told apart) or another driver error, here
  \<^verbatim>\<open>ConnectionFailure\<close>, which is not a subclass of \<^verbatim>\<open>OperationFailure\<close>.
\<close>

datatype store_error = OperationFailure string | ConnectionFailure string

datatype error =
    AssertionError string
  | Store store_error
  | IndexError
  | InvalidId
  | StopIteration
  | ValueError string

definition bind_result :: "error + 'a \<Rightarrow> ('a \<Rightarrow> error + 'b) \<Rightarrow> error + 'b" where
  "bind_result r f = (case r of Inl e \<Rightarrow> Inl e | Inr x \<Rightarrow> f x)"

text \<open>\<^verbatim>\<open>list(...)[0]\<close> and \<^verbatim>\<open>cursor.next()\<close>.\<close>

definition first :: "'a list \<Rightarrow> error + 'a" where
  "first xs = (case xs of [] \<Rightarrow> Inl IndexError | x # _ \<Rightarrow> Inr x)"

definition next_doc :: "'a list \<Rightarrow> error + 'a" where
  "next_doc xs = (case xs of [] \<Rightarrow> Inl StopIteration | x # _ \<Rightarrow> Inr x)"

section \<open>The document store\<close>

datatype field = NumReviews | Runtime | Metacritic | Date | CountField

datatype query =
    MatchAll                          \<comment> \<open>\<^verbatim>\<open>{}\<close>\<close>
  | TextSearch string                 \<comment> \<open>\<^verbatim>\<open>{"$text": {"$search": s}}\<close>\<close>
  | CastIn "string list"              \<comment> \<open>\<^verbatim>\<open>{"cast": {"$in": names}}\<close>\<close>
  | GenresIn "string list"            \<comment> \<open>\<^verbatim>\<open>{"genres": {"$in": names}}\<close>\<close>
  | IdEq oid                          \<comment> \<open>\<^verbatim>\<open>{"_id": oid}\<close>\<close>
  | MovieIdEqVar                      \<comment> \<open>\<^verbatim>\<open>{"$expr": {"$eq": ["$movie_id", "$$id"]}}\<close>\<close>

datatype sort_spec =
    Descending field                  \<comment> \<open>\<^verbatim>\<open>{field: -1}\<close>\<close>
  | MetaTextScore                     \<comment> \<open>\<^verbatim>\<open>("score", {"$meta": "textScore"})\<close>\<close>

datatype projection = ScoreMeta       \<comment> \<open>\<^verbatim>\<open>{"score": {"$meta": "textScore"}}\<close>\<close>

datatype stage =
    Match query
  | Sort sort_spec
  | Skip int
  | Limit int
  | Count                             \<comment> \<open>\<^verbatim>\<open>{"$count": "count"}\<close>\<close>
  | Bucket field "int list"           \<comment> \<open>\<^verbatim>\<open>$bucket\<close> with default \<^verbatim>\<open>"other"\<close>, output \<^verbatim>\<open>count: {$sum: 1}\<close>\<close>
  | AddFieldsTitle                    \<comment> \<open>\<^verbatim>\<open>{"$addFields": {"title": "$title"}}\<close>\<close>
  | Facet "(string \<times> stage list) list"
  | LookupComments "stage list"       \<comment> \<open>\<^verbatim>\<open>$lookup\<close> from comments, let id = \<^verbatim>\<open>$_id\<close>, as comments\<close>
  | GroupByEmail                      \<comment> \<open>\<^verbatim>\<open>{"$group": {"_id": "$email", "count": {"$sum": 1}}}\<close>\<close>

datatype collection = MoviesColl | CommentsColl

text \<open>
  What a \<^verbatim>\<open>find\<close> cursor of the driver records: the predicate, the projection, the sort,
  and how many documents to skip and to give.
\<close>

record cursor =
  cur_query :: query
  cur_projection :: "projection option"
  cur_sort :: "sort_spec option"
  cur_skip :: int
  cur_limit :: int

text \<open>
  Everything the module reaches outside itself: the two collections behind \<^verbatim>\<open>db\<close>, the
  score the text index gives a movie for a search string (a movie matches a text search
  iff its score is positive), the failure the store answers every command with, if any,
  the identifier codec \<^verbatim>\<open>bson.ObjectId\<close>, which gives \<open>None\<close> where the library
  raises \<^verbatim>\<open>InvalidId\<close>, and the order in which the store, running the query of a
  cursor, returns documents of equal sort key: the smaller rank first, and the order of
  the collection among equal ranks. The store promises nothing about that order, so the
  rank may differ from one query to the next.
\<close>

record env =
  movies :: "movie list"
  comments :: "comment list"
  text_score :: "string \<Rightarrow> movie \<Rightarrow> nat"
  fault :: "store_error option"
  object_id :: "string \<Rightarrow> oid option"
  tie_rank :: "cursor \<Rightarrow> doc \<Rightarrow> nat"

subsection \<open>Reading fields\<close>

fun doc_id :: "doc \<Rightarrow> oid option" where
  "doc_id (Movie m) = Some (m_id m)"
| "doc_id (Scored m s) = Some (m_id m)"
| "doc_id (Comment c) = Some (c_id c)"
| "doc_id (Joined d cs) = doc_id d"
| "doc_id _ = None"

fun doc_movie_id :: "doc \<Rightarrow> oid option" where
  "doc_movie_id (Comment c) = Some (c_movie_id c)"
| "doc_movie_id (Joined d cs) = doc_movie_id d"
| "doc_movie_id _ = None"

fun doc_email :: "doc \<Rightarrow> string option" where
  "doc_email (Comment c) = Some (c_email c)"
| "doc_email (Joined d cs) = doc_email d"
| "doc_email _ = None"

fun doc_cast :: "doc \<Rightarrow> string list" where
  "doc_cast (Movie m) = m_cast m"
| "doc_cast (Scored m s) = m_cast m"
| "doc_cast (Joined d cs) = doc_cast d"
| "doc_cast _ = []"

fun doc_genres :: "doc \<Rightarrow> string list" where
  "doc_genres (Movie m) = m_genres m"
| "doc_genres (Scored m s) = m_genres m"
| "doc_genres (Joined d cs) = doc_genres d"
| "doc_genres _ = []"

fun doc_text_score :: "env \<Rightarrow> string \<Rightarrow> doc \<Rightarrow> nat" where
  "doc_text_score e s (Movie m) = text_score e s m"
| "doc_text_score e s (Scored m x) = text_score e s m"
| "doc_text_score e s (Joined d cs) = doc_text_score e s d"
| "doc_text_score e s _ = 0"

text \<open>A numeric field of a document; \<open>None\<close> when the document has no such field.\<close>

definition movie_field :: "field \<Rightarrow> movie \<Rightarrow> int option" where
  "movie_field f m =
     (case f of NumReviews \<Rightarrow> m_numReviews m | Runtime \<Rightarrow> m_runtime m
      | Metacritic \<Rightarrow> m_metacritic m | _ \<Rightarrow> None)"

fun field_value :: "field \<Rightarrow> doc \<Rightarrow> int option" where
  "field_value f (Movie m) = movie_field f m"
| "field_value f (Scored m s) = movie_field f m"
| "field_value f (Comment c) = (case f of Date \<Rightarrow> Some (c_date c) | _ \<Rightarrow> None)"
| "field_value f (Joined d cs) = field_value f d"
| "field_value f (CountDoc n) = (case f of CountField \<Rightarrow> Some (int n) | _ \<Rightarrow> None)"
| "field_value f (BucketDoc b n) = (case f of CountField \<Rightarrow> Some (int n) | _ \<Rightarrow> None)"
| "field_value f (GroupDoc k n) = (case f of CountField \<Rightarrow> Some (int n) | _ \<Rightarrow> None)"
| "field_value f (FacetDoc bs) = None"

subsection \<open>Predicates\<close>

text \<open>
  \<open>v\<close> is the value of the variable \<^verbatim>\<open>$$id\<close>, bound by \<^verbatim>\<open>$lookup\<close>. \<^verbatim>\<open>$in\<close> on an
  array field holds when some element of the array is among the names.
\<close>

fun matches :: "env \<Rightarrow> oid option \<Rightarrow> query \<Rightarrow> doc \<Rightarrow> bool" where
  "matches e v MatchAll d = True"
| "matches e v (TextSearch s) d = (0 < doc_text_score e s d)"
| "matches e v (CastIn names) d = list_ex (\<lambda>x. x \<in> set names) (doc_cast d)"
| "matches e v (GenresIn names) d = list_ex (\<lambda>x. x \<in> set names) (doc_genres d)"
| "matches e v (IdEq i) d = (doc_id d = Some i)"
| "matches e v MovieIdEqVar d = (doc_movie_id d = v)"

subsection \<open>Sorting\<close>

text \<open>
  A descending sort on a key. A missing value is \<open>None\<close>, the least key, so it comes
  last. The sort keeps documents of equal key in the order of its input. For the query of
  a cursor that input order is the store's choice, query by query (\<open>tie_rank\<close>); for the
  stages of a pipeline it is the order in which the documents reach the stage.
\<close>

definition sort_descending :: "('a \<Rightarrow> 'k::linorder) \<Rightarrow> 'a list \<Rightarrow> 'a list" where
  "sort_descending f xs = rev (sort_key f (rev xs))"

fun sort_value :: "sort_spec \<Rightarrow> doc \<Rightarrow> int option" where
  "sort_value (Descending f) d = field_value f d"
| "sort_value MetaTextScore (Scored m s) = Some (int s)"
| "sort_value MetaTextScore _ = None"

subsection \<open>Buckets and groups\<close>

text \<open>The lower boundary of the range \<open>[a, b)\<close> of consecutive boundaries that holds \<open>x\<close>.\<close>

fun lower_bound :: "int list \<Rightarrow> int \<Rightarrow> int option" where
  "lower_bound (a # b # bs) x = (if a \<le> x \<and> x < b then Some a else lower_bound (b # bs) x)"
| "lower_bound _ x = None"

definition bucket_of :: "int list \<Rightarrow> int option \<Rightarrow> bucket_id" where
  "bucket_of bs v =
     (case v of None \<Rightarrow> Other
      | Some x \<Rightarrow> (case lower_bound bs x of None \<Rightarrow> Other | Some a \<Rightarrow> Lower a))"

fun doc_count :: "doc \<Rightarrow> nat" where
  "doc_count (CountDoc n) = n"
| "doc_count (BucketDoc b n) = n"
| "doc_count (GroupDoc k n) = n"
| "doc_count _ = 0"

text \<open>
  \<^verbatim>\<open>$bucket\<close>: one output document for each bucket that holds at least one input
  document, the default bucket last, each with the number of its documents.
\<close>

definition bucket_stage :: "field \<Rightarrow> int list \<Rightarrow> doc list \<Rightarrow> doc list" where
  "bucket_stage f bs ds =
     filter (\<lambda>b. 0 < doc_count b)
       (map (\<lambda>i. BucketDoc i (length (filter (\<lambda>d. bucket_of bs (field_value f d) = i) ds)))
          (map Lower (butlast bs) @ [Other]))"

text \<open>\<^verbatim>\<open>$group\<close> by email with \<^verbatim>\<open>{"$sum": 1}\<close>: one document for each distinct email.\<close>

definition group_by_email :: "doc list \<Rightarrow> doc list" where
  "group_by_email ds =
     map (\<lambda>k. GroupDoc k (length (filter (\<lambda>d. doc_email d = k) ds)))
       (remdups (map doc_email ds))"

subsection \<open>Aggregation pipelines\<close>

text \<open>
  \<^verbatim>\<open>$skip\<close> refuses a negative number and \<^verbatim>\<open>$limit\<close> a number that is not positive; the
  server answers with an \<^verbatim>\<open>OperationFailure\<close>. \<^verbatim>\<open>$count\<close> gives no document on an empty
  input. \<^verbatim>\<open>$facet\<close> gives exactly one document, whatever its input.
\<close>

type_synonym stage_fun = "oid option \<Rightarrow> doc list \<Rightarrow> store_error + doc list"

text \<open>The stages of a pipeline run in order; the first failure ends the run.\<close>

fun run_all :: "stage_fun list \<Rightarrow> stage_fun" where
  "run_all [] v ds = Inr ds"
| "run_all (f # fs) v ds =
     (case f v ds of Inl err \<Rightarrow> Inl err | Inr ds' \<Rightarrow> run_all fs v ds')"

text \<open>Every branch of a \<^verbatim>\<open>$facet\<close> runs on the same input.\<close>

fun run_branches ::
  "(string \<times> stage_fun list) list \<Rightarrow> oid option \<Rightarrow> doc list
     \<Rightarrow> store_error + (string \<times> doc list) list" where
  "run_branches [] v ds = Inr []"
| "run_branches (b # bs) v ds =
     (case run_all (snd b) v ds of
        Inl err \<Rightarrow> Inl err
      | Inr r \<Rightarrow>
          (case run_branches bs v ds of
             Inl err \<Rightarrow> Inl err | Inr rs \<Rightarrow> Inr ((fst b, r) # rs)))"

text \<open>
  \<^verbatim>\<open>$lookup\<close>: for each input document the sub-pipeline runs on the comments collection
  with \<^verbatim>\<open>$$id\<close> bound to the document's \<^verbatim>\<open>_id\<close>, and what it gives is embedded.
\<close>

fun run_lookup :: "env \<Rightarrow> stage_fun list \<Rightarrow> doc list \<Rightarrow> store_error + doc list" where
  "run_lookup e p [] = Inr []"
| "run_lookup e p (d # ds) =
     (case run_all p (doc_id d) (map Comment (comments e)) of
        Inl err \<Rightarrow> Inl err
      | Inr cs \<Rightarrow>
          (case run_lookup e p ds of
             Inl err \<Rightarrow> Inl err | Inr rest \<Rightarrow> Inr (Joined d cs # rest)))"

primrec run_stage :: "env \<Rightarrow> stage \<Rightarrow> stage_fun" where
  "run_stage e (Match q) = (\<lambda>v ds. Inr (filter (matches e v q) ds))"
| "run_stage e (Sort k) = (\<lambda>v ds. Inr (sort_descending (sort_value k) ds))"
| "run_stage e (Skip n) = (\<lambda>v ds.
     if n < 0 then Inl (OperationFailure ''$skip must not be negative'')
     else Inr (drop (nat n) ds))"
| "run_stage e (Limit n) = (\<lambda>v ds.
     if n \<le> 0 then Inl (OperationFailure ''the limit must be positive'')
     else Inr (take (nat n) ds))"
| "run_stage e Count = (\<lambda>v ds. Inr (if ds = [] then [] else [CountDoc (length ds)]))"
| "run_stage e (Bucket f bs) = (\<lambda>v ds. Inr (bucket_stage f bs ds))"
| "run_stage e AddFieldsTitle = (\<lambda>v ds. Inr ds)"
| "run_stage e (Facet branches) = (\<lambda>v ds.
     case run_branches (map (map_prod id (map (run_stage e))) branches) v ds of
       Inl err \<Rightarrow> Inl err | Inr r \<Rightarrow> Inr [FacetDoc r])"
| "run_stage e (LookupComments p) = (\<lambda>v ds. run_lookup e (map (run_stage e) p) ds)"
| "run_stage e GroupByEmail = (\<lambda>v ds. Inr (group_by_email ds))"

definition run :: "env \<Rightarrow> stage list \<Rightarrow> stage_fun" where
  "run e pipeline = run_all (map (run_stage e) pipeline)"

definition collection_docs :: "env \<Rightarrow> collection \<Rightarrow> doc list" where
  "collection_docs e c =
     (case c of MoviesColl \<Rightarrow> map Movie (movies e) | CommentsColl \<Rightarrow> map Comment (comments e))"

text \<open>\<^verbatim>\<open>db.<collection>.aggregate(pipeline)\<close>, read to the end.\<close>

definition aggregate :: "env \<Rightarrow> collection \<Rightarrow> stage list \<Rightarrow> error + doc list" where
  "aggregate e c pipeline =
     (case fault e of
        Some err \<Rightarrow> Inl (Store err)
      | None \<Rightarrow>
          (case run e pipeline None (collection_docs e c) of
             Inl err \<Rightarrow> Inl (Store err) | Inr ds \<Rightarrow> Inr ds))"

subsection \<open>Cursors\<close>

text \<open>
  \<^verbatim>\<open>db.movies.find(query, projection)\<close> gives a cursor, which only records what was asked;
  \<^verbatim>\<open>sort\<close>, \<^verbatim>\<open>skip\<close> and \<^verbatim>\<open>limit\<close> update it, and \<^verbatim>\<open>list(cursor)\<close> runs the query.
  \<^verbatim>\<open>skip\<close> raises \<^verbatim>\<open>ValueError\<close> on a negative number. A limit of 0 is no limit, and a
  negative limit asks for that many documents in a single batch. Each run sorts anew:
  documents of equal sort key come in the order the store chooses for that query.
\<close>

definition find_docs :: "query \<Rightarrow> projection option \<Rightarrow> cursor" where
  "find_docs q p =
     \<lparr>cur_query = q, cur_projection = p, cur_sort = None, cur_skip = 0, cur_limit = 0\<rparr>"

definition sort_cursor :: "cursor \<Rightarrow> sort_spec \<Rightarrow> cursor" where
  "sort_cursor c k = c\<lparr>cur_sort := Some k\<rparr>"

definition skip_cursor :: "cursor \<Rightarrow> int \<Rightarrow> error + cursor" where
  "skip_cursor c n =
     (if n < 0 then Inl (ValueError ''The 'skip' parameter must be >= 0'')
      else Inr (c\<lparr>cur_skip := n\<rparr>))"

definition limit_cursor :: "cursor \<Rightarrow> int \<Rightarrow> cursor" where
  "limit_cursor c n = c\<lparr>cur_limit := n\<rparr>"

text \<open>The projection of the text score adds the field \<^verbatim>\<open>score\<close> to a matched movie.\<close>

fun project_doc :: "env \<Rightarrow> query \<Rightarrow> projection option \<Rightarrow> doc \<Rightarrow> doc" where
  "project_doc e (TextSearch s) (Some ScoreMeta) (Movie m) = Scored m (text_score e s m)"
| "project_doc e q p d = d"

text \<open>The movies a predicate selects, in the order of the collection.\<close>

definition matching :: "env \<Rightarrow> query \<Rightarrow> doc list" where
  "matching e q = filter (matches e None q) (map Movie (movies e))"

text \<open>
  What the query of a cursor selects, projected and sorted, before skip and limit.
\<close>

definition sorted_docs :: "env \<Rightarrow> cursor \<Rightarrow> doc list" where
  "sorted_docs e c =
     (let matched = matching e (cur_query c);
          projected = map (project_doc e (cur_query c) (cur_projection c)) matched
      in case cur_sort c of
           None \<Rightarrow> projected
         | Some k \<Rightarrow> sort_descending (sort_value k) (sort_key (tie_rank e c) projected))"

definition list_cursor :: "env \<Rightarrow> cursor \<Rightarrow> error + doc list" where
  "list_cursor e c =
     (case fault e of
        Some err \<Rightarrow> Inl (Store err)
      | None \<Rightarrow>
          (let skipped = drop (nat (cur_skip c)) (sorted_docs e c)
           in Inr (if cur_limit c = 0 then skipped
                   else take (nat \<bar>cur_limit c\<bar>) skipped)))"

definition count_documents :: "env \<Rightarrow> query \<Rightarrow> error + int" where
  "count_documents e q =
     (case fault e of
        Some err \<Rightarrow> Inl (Store err)
      | None \<Rightarrow> Inr (int (length (matching e q))))"

section \<open>The module\<close>

subsection \<open>The filters dictionary\<close>

text \<open>
  The three keys the module looks for, each absent (\<open>None\<close>) or present with its value:
  a search string under \<^verbatim>\<open>text\<close>, a list of names under \<^verbatim>\<open>cast\<close> and under \<^verbatim>\<open>genres\<close>.
  A dictionary with none of them is treated as the empty dictionary, which the code
  handles the same way.
\<close>

record filters =
  text_key :: "string option"
  cast_key :: "string list option"
  genres_key :: "string list option"

definition no_filters :: filters where
  "no_filters = \<lparr>text_key = None, cast_key = None, genres_key = None\<rparr>"

subsection \<open>\<^verbatim>\<open>build_query_sort_project\<close>\<close>

definition build_query_sort_project :: "filters \<Rightarrow> query \<times> sort_spec \<times> projection option" where
  "build_query_sort_project fs =
     (let query = MatchAll;
          sort_by = Descending NumReviews;
          project = None
      in if fs \<noteq> no_filters then
           (case text_key fs of
              Some s \<Rightarrow> (TextSearch s, MetaTextScore, Some ScoreMeta)
            | None \<Rightarrow>
                (case cast_key fs of
                   Some names \<Rightarrow> (CastIn names, sort_by, project)
                 | None \<Rightarrow>
                     (case genres_key fs of
                        Some names \<Rightarrow> (GenresIn names, sort_by, project)
                      | None \<Rightarrow> (query, sort_by, project))))
         else (query, sort_by, project))"

subsection \<open>\<^verbatim>\<open>get_movies\<close>\<close>

definition get_movies :: "env \<Rightarrow> filters \<Rightarrow> int \<Rightarrow> int \<Rightarrow> error + (doc list \<times> int)" where
  "get_movies e fs page movies_per_page =
     (case build_query_sort_project fs of
        (query, sort_by, project) \<Rightarrow>
          (let cursor =
                 (if project \<noteq> None then sort_cursor (find_docs query project) sort_by
                  else sort_cursor (find_docs query None) sort_by)
           in bind_result (if page = 0 then count_documents e query else Inr 0)
                (\<lambda>total_num_movies.
                   let records_to_skip = movies_per_page * page
                   in bind_result (skip_cursor cursor records_to_skip)
                        (\<lambda>skipped.
                           bind_result (list_cursor e (limit_cursor skipped movies_per_page))
                             (\<lambda>movies. Inr (movies, total_num_movies))))))"

subsection \<open>\<^verbatim>\<open>get_movies_faceted\<close>\<close>

text \<open>\<^verbatim>\<open>doc.get("count")\<close>.\<close>

fun get_count :: "doc \<Rightarrow> int option" where
  "get_count (CountDoc n) = Some (int n)"
| "get_count (BucketDoc b n) = Some (int n)"
| "get_count (GroupDoc k n) = Some (int n)"
| "get_count _ = None"

definition too_large :: string where
  "too_large = ''Results too large to sort, be more restrictive in filter''"

definition facet_stage :: stage where
  "facet_stage =
     Facet
       [(''runtime'', [Bucket Runtime [0, 60, 90, 120, 180]]),
        (''rating'', [Bucket Metacritic [0, 50, 70, 90, 100]]),
        (''movies'', [AddFieldsTitle])]"

definition get_movies_faceted ::
  "env \<Rightarrow> filters \<Rightarrow> int \<Rightarrow> int \<Rightarrow> error + (doc \<times> int option)" where
  "get_movies_faceted e fs page movies_per_page =
     (case cast_key fs of
        None \<Rightarrow> Inl (AssertionError ''No filters to pass to faceted search!'')
      | Some names \<Rightarrow>
          (let sort_key = NumReviews;
               base = [Match (CastIn names), Sort (Descending sort_key)];
               counting = base @ [Count];
               skip_stage = Skip (movies_per_page * page);
               limit_stage = Limit movies_per_page;
               pipeline = base @ [skip_stage, limit_stage, facet_stage]
           in case bind_result (bind_result (aggregate e MoviesColl pipeline) first)
                     (\<lambda>movies.
                        bind_result (bind_result (aggregate e MoviesColl counting) first)
                          (\<lambda>c. Inr (movies, get_count c))) of
                Inl (Store (OperationFailure msg)) \<Rightarrow> Inl (Store (OperationFailure too_large))
              | r \<Rightarrow> r))"

subsection \<open>\<^verbatim>\<open>get_movie\<close>\<close>

text \<open>What \<^verbatim>\<open>get_movie\<close> returns: \<^verbatim>\<open>None\<close>, the empty dictionary, or a document.\<close>

datatype movie_result = PyNone | EmptyDict | Found doc

definition ObjectId :: "env \<Rightarrow> string \<Rightarrow> error + oid" where
  "ObjectId e s = (case object_id e s of None \<Rightarrow> Inl InvalidId | Some i \<Rightarrow> Inr i)"

definition get_movie :: "env \<Rightarrow> string \<Rightarrow> movie_result" where
  "get_movie e ident =
     (case bind_result (ObjectId e ident)
             (\<lambda>i. let pipeline =
                         [Match (IdEq i),
                          LookupComments [Match MovieIdEqVar, Sort (Descending Date)]]
                   in bind_result (aggregate e MoviesColl pipeline) next_doc) of
        Inr movie \<Rightarrow> Found movie
      | Inl InvalidId \<Rightarrow> PyNone
      | Inl StopIteration \<Rightarrow> PyNone
      | Inl err \<Rightarrow> EmptyDict)"

subsection \<open>\<^verbatim>\<open>most_active_commenters\<close>\<close>

definition most_active_commenters :: "env \<Rightarrow> error + doc list" where
  "most_active_commenters e =
     (let group = GroupByEmail;
          sort_by = Sort (Descending CountField);
          limit = Limit 20;
          pipeline = [group, sort_by, limit]
      in aggregate e CommentsColl pipeline)"

section \<open>Reading results\<close>

text \<open>\<^verbatim>\<open>doc[name]\<close> on the document of a \<^verbatim>\<open>$facet\<close>, and the sum of the counts of a facet.\<close>

fun facet_branch :: "string \<Rightarrow> doc \<Rightarrow> doc list" where
  "facet_branch name (FacetDoc bs) = (case map_of bs name of Some ds \<Rightarrow> ds | None \<Rightarrow> [])"
| "facet_branch name d = []"

definition bucket_total :: "string \<Rightarrow> doc \<Rightarrow> nat" where
  "bucket_total name d = sum_list (map doc_count (facet_branch name d))"

text \<open>The movies of a page; nothing when the fetch failed.\<close>

definition movies_of :: "error + (doc list \<times> int) \<Rightarrow> doc list" where
  "movies_of r = (case r of Inl err \<Rightarrow> [] | Inr p \<Rightarrow> fst p)"

text \<open>The number of comments an email has written.\<close>

definition comments_by :: "env \<Rightarrow> string \<Rightarrow> nat" where
  "comments_by e a = length (filter (\<lambda>c. c_email c = a) (comments e))"

section \<open>A sample catalogue\<close>

text \<open>
  A codec that accepts exactly the strings of 24 hexadecimal digits, a text index that
  scores a title above a genre, four movies and four comments. The dates are those of
  2020-01-01, 2020-06-01 and 2019-01-01, and 2021-01-01 for the other movie. The store
  returns documents of equal sort key in the order of the collection.
\<close>

definition hex_digit :: "char \<Rightarrow> nat option" where
  "hex_digit c =
     (let n = (of_char c :: nat)
      in if 48 \<le> n \<and> n \<le> 57 then Some (n - 48)
         else if 97 \<le> n \<and> n \<le> 102 then Some (n - 87)
         else if 65 \<le> n \<and> n \<le> 70 then Some (n - 55)
         else None)"

fun hex_value :: "nat \<Rightarrow> string \<Rightarrow> nat option" where
  "hex_value acc [] = Some acc"
| "hex_value acc (c # cs) =
     (case hex_digit c of None \<Rightarrow> None | Some d \<Rightarrow> hex_value (16 * acc + d) cs)"

definition hex24 :: "string \<Rightarrow> oid option" where
  "hex24 s = (if length s = 24 then hex_value 0 s else None)"

definition title_score :: "string \<Rightarrow> movie \<Rightarrow> nat" where
  "title_score s m = (if s = m_title m then 2 else if s \<in> set (m_genres m) then 1 else 0)"

definition big :: movie where
  "big = \<lparr>m_id = 1, m_title = ''Big'', m_cast = [''Tom Hanks''], m_genres = [''Comedy''],
           m_runtime = Some 104, m_metacritic = Some 73, m_numReviews = Some 500\<rparr>"

definition cast_away :: movie where
  "cast_away = \<lparr>m_id = 2, m_title = ''Cast Away'', m_cast = [''Tom Hanks'', ''Helen Hunt''],
           m_genres = [''Drama''], m_runtime = Some 143, m_metacritic = Some 73,
           m_numReviews = Some 900\<rparr>"

definition toy_story :: movie where
  "toy_story = \<lparr>m_id = 3, m_title = ''Toy Story'', m_cast = [''Tom Hanks'', ''Tim Allen''],
           m_genres = [''Comedy''], m_runtime = Some 81, m_metacritic = Some 95,
           m_numReviews = None\<rparr>"

definition heat :: movie where
  "heat = \<lparr>m_id = 4, m_title = ''Heat'', m_cast = [''Al Pacino''], m_genres = [''Drama''],
           m_runtime = Some 170, m_metacritic = None, m_numReviews = Some 700\<rparr>"

definition comment_by :: "oid \<Rightarrow> oid \<Rightarrow> string \<Rightarrow> int \<Rightarrow> comment" where
  "comment_by i m a d =
     \<lparr>c_id = i, c_movie_id = m, c_name = ''viewer'', c_email = a, c_text = ''seen it'',
      c_date = d\<rparr>"

definition catalogue :: env where
  "catalogue =
     \<lparr>movies = [big, cast_away, toy_story, heat],
      comments =
        [comment_by 10 1 ''ann@example.com'' 1577836800000,
         comment_by 11 1 ''bob@example.com'' 1590969600000,
         comment_by 12 1 ''ann@example.com'' 1546300800000,
         comment_by 13 2 ''ann@example.com'' 1609459200000],
      text_score = title_score,
      fault = None,
      object_id = hex24,
      tie_rank = (\<lambda>c d. 0)\<rparr>"

definition with_cast :: "string list \<Rightarrow> filters" where
  "with_cast names = \<lparr>text_key = None, cast_key = Some names, genres_key = None\<rparr>"

text \<open>The first page of size two of the movies with Tom Hanks, as the store gives it.\<close>

definition hanks_first_page :: doc where
  "hanks_first_page =
     FacetDoc
       [(''runtime'', [BucketDoc (Lower 90) 1, BucketDoc (Lower 120) 1]),
        (''rating'', [BucketDoc (Lower 70) 2]),
        (''movies'', [Movie cast_away, Movie big])]"

text \<open>A comments collection in which one email wrote 50 comments, the others 5 and 3.\<close>

definition forum :: env where
  "forum =
     \<lparr>movies = [big],
      comments =
        map (\<lambda>n. comment_by n 1 ''ann@example.com'' (int n)) [0..<50]
        @ map (\<lambda>n. comment_by (50 + n) 1 ''bob@example.com'' (int n)) [0..<5]
        @ map (\<lambda>n. comment_by (55 + n) 1 ''carol@example.com'' (int n)) [0..<3],
      text_score = title_score,
      fault = None,
      object_id = hex24,
      tie_rank = (\<lambda>c d. 0)\<rparr>"

text \<open>
  Two movies without the review count, so that they tie on the default sort key, in a
  store that returns the second before the first in every query, and in a store that
  returns the first before the second in a query that skips nothing and the second
  before the first in a query that skips something.
\<close>

definition splash :: movie where
  "splash = \<lparr>m_id = 5, m_title = ''Splash'', m_cast = [''Tom Hanks'', ''Daryl Hannah''],
           m_genres = [''Comedy''], m_runtime = Some 111, m_metacritic = Some 71,
           m_numReviews = None\<rparr>"

definition punchline :: movie where
  "punchline = \<lparr>m_id = 6, m_title = ''Punchline'', m_cast = [''Tom Hanks'', ''Sally Field''],
           m_genres = [''Comedy''], m_runtime = Some 122, m_metacritic = None,
           m_numReviews = None\<rparr>"

definition steady :: env where
  "steady =
     \<lparr>movies = [splash, punchline],
      comments = [],
      text_score = title_score,
      fault = None,
      object_id = hex24,
      tie_rank = (\<lambda>c d. if d = Movie punchline then 0 else 1)\<rparr>"

definition fickle :: env where
  "fickle =
     \<lparr>movies = [splash, punchline],
      comments = [],
      text_score = title_score,
      fault = None,
      object_id = hex24,
      tie_rank =
        (\<lambda>c d. if cur_skip c = 0 then (if d = Movie splash then 0 else 1)
                else (if d = Movie punchline then 0 else 1))\<rparr>"

section \<open>The descending sort\<close>

lemma mset_sort_descending [simp]: "mset (sort_descending f xs) = mset xs"
  by (simp add: sort_descending_def)

lemma set_sort_descending [simp]: "set (sort_descending f xs) = set xs"
  by (simp add: sort_descending_def)

lemma length_sort_descending [simp]: "length (sort_descending f xs) = length xs"
  by (simp add: sort_descending_def)

lemma sort_descending_Nil [simp]: "sort_descending f [] = []"
  by (simp add: sort_descending_def)

lemma sort_descending_eq_Nil [simp]: "sort_descending f xs = [] \<longleftrightarrow> xs = []"
  by (metis length_sort_descending length_0_conv)

lemma sorted_sort_descending: "sorted_wrt (\<lambda>a b. f b \<le> f a) (sort_descending f xs)"
proof -
  have "sorted (map f (sort_key f (rev xs)))" by (rule sorted_sort_key)
  then have "sorted_wrt (\<lambda>a b. f a \<le> f b) (sort_key f (rev xs))"
    by (simp add: sorted_map)
  then show ?thesis
    by (simp add: sort_descending_def sorted_wrt_rev)
qed

lemma insort_key_map: "insort_key f (g x) (map g xs) = map g (insort_key (\<lambda>y. f (g y)) x xs)"
  by (induction xs) simp_all

lemma sort_key_map: "sort_key f (map g xs) = map g (sort_key (\<lambda>y. f (g y)) xs)"
  by (induction xs) (simp_all add: insort_key_map)

lemma sort_descending_map:
  "sort_descending f (map g xs) = map g (sort_descending (\<lambda>y. f (g y)) xs)"
  by (simp add: sort_descending_def rev_map sort_key_map)

lemma insort_key_Some: "insort_key (\<lambda>y. Some (f y)) x xs = insort_key f x xs"
  by (induction xs) simp_all

lemma sort_key_Some: "sort_key (\<lambda>y. Some (f y)) xs = sort_key f xs"
  by (induction xs) (simp_all add: insort_key_Some)

lemma sort_descending_Some: "sort_descending (\<lambda>y. Some (f y)) xs = sort_descending f xs"
  by (simp add: sort_descending_def sort_key_Some)

section \<open>Fetching a movie with its comments\<close>

lemma filter_map_Comment:
  "filter (matches e (Some i) MovieIdEqVar) (map Comment cs)
     = map Comment (filter (\<lambda>c. c_movie_id c = i) cs)"
  by (induction cs) simp_all


lemma filter_IdEq:
  "filter (matches e v (IdEq i)) (map Movie ms) = map Movie (filter (\<lambda>m. m_id m = i) ms)"
  by (induction ms) simp_all

lemma comments_of_doc:
  "doc_id d = Some i \<Longrightarrow>
   run_all (map (run_stage e) [Match MovieIdEqVar, Sort (Descending Date)]) (doc_id d)
       (map Comment (comments e))
     = Inr (map Comment (sort_descending c_date (filter (\<lambda>c. c_movie_id c = i) (comments e))))"
  by (simp add: filter_map_Comment sort_descending_map sort_descending_Some)

lemma run_lookup_movies:
  "run_lookup e (map (run_stage e) [Match MovieIdEqVar, Sort (Descending Date)]) (map Movie ms)
     = Inr (map (\<lambda>m. Joined (Movie m)
              (map Comment
                (sort_descending c_date (filter (\<lambda>c. c_movie_id c = m_id m) (comments e)))))
            ms)"
  by (induction ms)
     (simp_all add: filter_map_Comment sort_descending_map sort_descending_Some)

lemma aggregate_get_movie:
  "fault e = None \<Longrightarrow>
   aggregate e MoviesColl
       [Match (IdEq i), LookupComments [Match MovieIdEqVar, Sort (Descending Date)]]
     = Inr (map (\<lambda>m. Joined (Movie m)
              (map Comment
                (sort_descending c_date (filter (\<lambda>c. c_movie_id c = m_id m) (comments e)))))
            (filter (\<lambda>m. m_id m = i) (movies e)))"
  using run_lookup_movies [of e "filter (\<lambda>m. m_id m = i) (movies e)"]
  by (simp add: aggregate_def run_def collection_docs_def filter_IdEq)

lemma aggregate_fault: "fault e = Some err \<Longrightarrow> aggregate e c p = Inl (Store err)"
  by (simp add: aggregate_def)

lemma get_movie_invalid: "object_id e ident = None \<Longrightarrow> get_movie e ident = PyNone"
  by (simp add: get_movie_def ObjectId_def bind_result_def)

lemma get_movie_fault:
  "object_id e ident = Some i \<Longrightarrow> fault e = Some err \<Longrightarrow> get_movie e ident = EmptyDict"
  by (simp add: get_movie_def ObjectId_def bind_result_def aggregate_fault)

lemma get_movie_missing:
  "object_id e ident = Some i \<Longrightarrow> fault e = None \<Longrightarrow> \<forall>m \<in> set (movies e). m_id m \<noteq> i
   \<Longrightarrow> get_movie e ident = PyNone"
proof -
  assume a: "object_id e ident = Some i" "fault e = None" "\<forall>m \<in> set (movies e). m_id m \<noteq> i"
  then have "filter (\<lambda>m. m_id m = i) (movies e) = []"
    by (simp add: filter_empty_conv)
  with a show ?thesis
    by (simp add: get_movie_def ObjectId_def bind_result_def aggregate_get_movie next_doc_def)
qed

lemma get_movie_found:
  assumes "object_id e ident = Some i" "fault e = None"
    and "List.find (\<lambda>m. m_id m = i) (movies e) = Some m"
  shows "get_movie e ident
     = Found (Joined (Movie m)
         (map Comment
           (sort_descending c_date (filter (\<lambda>c. c_movie_id c = m_id m) (comments e)))))"
proof -
  have "\<exists>ms. filter (\<lambda>m. m_id m = i) xs = m # ms"
    if "List.find (\<lambda>m. m_id m = i) xs = Some m" for xs
    using that by (induction xs) (auto split: if_splits)
  with assms(3) obtain ms where "filter (\<lambda>m. m_id m = i) (movies e) = m # ms"
    by blast
  with assms show ?thesis
    by (simp add: get_movie_def ObjectId_def bind_result_def aggregate_get_movie next_doc_def)
qed

text \<open>
  C4. For every identifier string, \<^verbatim>\<open>get_movie\<close> returns \<^verbatim>\<open>None\<close> when the identifier does
  not parse and when it parses but no movie has it, so the caller cannot tell the two
  apart; when the store fails on a parsed identifier it returns the empty dictionary,
  which is not \<^verbatim>\<open>None\<close>. The function has no error result: it never raises.
\<close>

theorem get_movie_absent_or_empty:
  "(object_id e ident = None \<longrightarrow> get_movie e ident = PyNone)
   \<and> (object_id e ident = Some i \<and> fault e = None \<and> (\<forall>m \<in> set (movies e). m_id m \<noteq> i)
        \<longrightarrow> get_movie e ident = PyNone)
   \<and> (object_id e ident = Some i \<and> fault e = Some err \<longrightarrow> get_movie e ident = EmptyDict)
   \<and> EmptyDict \<noteq> PyNone"
  by (simp add: get_movie_invalid get_movie_missing get_movie_fault)

theorem get_movie_absent_or_empty_witness:
  "get_movie catalogue ''not-a-valid-id'' = PyNone
   \<and> get_movie catalogue ''000000000000000000000009'' = PyNone
   \<and> get_movie (catalogue\<lparr>fault := Some (ConnectionFailure ''connection refused'')\<rparr>)
        ''000000000000000000000001'' = EmptyDict"
  using get_movie_absent_or_empty [of catalogue "''not-a-valid-id''"]
    get_movie_absent_or_empty [of catalogue "''000000000000000000000009''" 9]
    get_movie_absent_or_empty
      [of "catalogue\<lparr>fault := Some (ConnectionFailure ''connection refused'')\<rparr>"
          "''000000000000000000000001''" 1 "ConnectionFailure ''connection refused''"]
  by (simp add: catalogue_def hex24_def hex_digit_def big_def cast_away_def toy_story_def
        heat_def)

text \<open>
  C5. For every movie that exists, \<^verbatim>\<open>get_movie\<close> returns the movie with the field
  \<^verbatim>\<open>comments\<close> added. The field holds exactly the comments whose \<^verbatim>\<open>movie_id\<close> is the
  movie's \<^verbatim>\<open>_id\<close>, each as often as the collection has it, newest first.
\<close>

theorem get_movie_embeds_comments:
  assumes "object_id e ident = Some i" and "fault e = None"
    and "List.find (\<lambda>m. m_id m = i) (movies e) = Some m"
  shows "\<exists>cs. get_movie e ident = Found (Joined (Movie m) (map Comment cs))
     \<and> cs = sort_descending c_date (filter (\<lambda>c. c_movie_id c = m_id m) (comments e))
     \<and> mset cs = mset (filter (\<lambda>c. c_movie_id c = m_id m) (comments e))
     \<and> sorted_wrt (\<lambda>a b. c_date b \<le> c_date a) cs"
  using get_movie_found [OF assms] sorted_sort_descending [of c_date]
  by simp

theorem get_movie_embeds_comments_witness:
  "get_movie catalogue ''000000000000000000000001''
     = Found (Joined (Movie big)
         (map Comment
           [comment_by 11 1 ''bob@example.com'' 1590969600000,
            comment_by 10 1 ''ann@example.com'' 1577836800000,
            comment_by 12 1 ''ann@example.com'' 1546300800000]))"
proof -
  have "object_id catalogue ''000000000000000000000001'' = Some 1"
    by (simp add: catalogue_def hex24_def hex_digit_def)
  moreover have "fault catalogue = None"
    by (simp add: catalogue_def)
  moreover have "List.find (\<lambda>m. m_id m = 1) (movies catalogue) = Some big"
    by (simp add: catalogue_def big_def)
  ultimately obtain cs where
    r: "get_movie catalogue ''000000000000000000000001'' = Found (Joined (Movie big) (map Comment cs))"
    and cs: "cs = sort_descending c_date
                   (filter (\<lambda>c. c_movie_id c = m_id big) (comments catalogue))"
    using get_movie_embeds_comments [of catalogue "''000000000000000000000001''" 1 big]
    by blast
  have "cs = [comment_by 11 1 ''bob@example.com'' 1590969600000,
              comment_by 10 1 ''ann@example.com'' 1577836800000,
              comment_by 12 1 ''ann@example.com'' 1546300800000]"
    unfolding cs by (simp add: catalogue_def big_def comment_by_def sort_descending_def)
  with r show ?thesis by simp
qed

section \<open>Compiling the filters\<close>

text \<open>
  C6. When more than one key is present, the first of \<^verbatim>\<open>text\<close>, \<^verbatim>\<open>cast\<close>, \<^verbatim>\<open>genres\<close>
  decides the whole triple of predicate, sort and projection; whatever is under the later
  keys (\<open>c\<close> and \<open>g\<close> below, present or not) has no effect, so one branch is active.
\<close>

theorem filter_precedence:
  "build_query_sort_project \<lparr>text_key = Some s, cast_key = c, genres_key = g\<rparr>
     = (TextSearch s, MetaTextScore, Some ScoreMeta)
   \<and> build_query_sort_project \<lparr>text_key = None, cast_key = Some names, genres_key = g\<rparr>
     = (CastIn names, Descending NumReviews, None)
   \<and> build_query_sort_project \<lparr>text_key = None, cast_key = None, genres_key = Some names\<rparr>
     = (GenresIn names, Descending NumReviews, None)"
  by (simp add: build_query_sort_project_def no_filters_def)

theorem filter_precedence_witness:
  "build_query_sort_project
      \<lparr>text_key = Some ''heist'', cast_key = Some [''Al Pacino''], genres_key = Some [''Drama'']\<rparr>
     = (TextSearch ''heist'', MetaTextScore, Some ScoreMeta)
   \<and> build_query_sort_project
      \<lparr>text_key = None, cast_key = Some [''Al Pacino''], genres_key = Some [''Drama'']\<rparr>
     = (CastIn [''Al Pacino''], Descending NumReviews, None)"
  using filter_precedence [of "''heist''" "Some [''Al Pacino'']" "Some [''Drama'']" "[''Al Pacino'']"]
  by simp

section \<open>Faceted search\<close>

lemma sum_list_indicator:
  "distinct ids \<Longrightarrow> sum_list (map (\<lambda>i. if a = i then 1 else 0) ids) = (if a \<in> set ids then 1 else (0::nat))"
  by (induction ids) auto

lemma partition_counts:
  "distinct ids \<Longrightarrow> \<forall>d \<in> set ds. g d \<in> set ids \<Longrightarrow>
   sum_list (map (\<lambda>i. length (filter (\<lambda>d. g d = i) ds)) ids) = length ds"
proof (induction ds)
  case Nil
  show ?case by simp
next
  case (Cons d ds)
  have "sum_list (map (\<lambda>i. length (filter (\<lambda>d. g d = i) (d # ds))) ids)
      = sum_list (map (\<lambda>i. (if g d = i then 1 else 0) + length (filter (\<lambda>d. g d = i) ds)) ids)"
    by (rule arg_cong [where f = sum_list]) simp
  also have "\<dots> = sum_list (map (\<lambda>i. if g d = i then 1 else 0) ids)
      + sum_list (map (\<lambda>i. length (filter (\<lambda>d. g d = i) ds)) ids)"
    by (simp add: sum_list_addf)
  also have "\<dots> = 1 + length ds"
    using Cons by (simp add: sum_list_indicator)
  finally show ?case by simp
qed

lemma positive_counts_total:
  "sum_list (map doc_count (filter (\<lambda>b. 0 < doc_count b) bs)) = sum_list (map doc_count bs)"
  by (induction bs) simp_all

lemma lower_bound_in: "lower_bound bs x = Some a \<Longrightarrow> a \<in> set (butlast bs)"
  by (induction bs x rule: lower_bound.induct) (auto split: if_splits)

lemma bucket_of_in: "bucket_of bs v \<in> set (map Lower (butlast bs) @ [Other])"
  by (auto simp: bucket_of_def dest: lower_bound_in split: option.splits)

lemma bucket_stage_total:
  assumes "distinct bs"
  shows "sum_list (map doc_count (bucket_stage f bs ds)) = length ds"
proof -
  have d: "distinct (map Lower (butlast bs) @ [Other])"
    using assms by (auto simp: distinct_map inj_on_def distinct_butlast)
  have "sum_list (map doc_count (bucket_stage f bs ds))
      = sum_list (map (\<lambda>i. length (filter (\<lambda>d. bucket_of bs (field_value f d) = i) ds))
          (map Lower (butlast bs) @ [Other]))"
    unfolding bucket_stage_def positive_counts_total by (simp add: comp_def)
  also have "\<dots> = length ds"
    by (rule partition_counts [OF d]) (simp add: bucket_of_in del: set_append list.set map_append)
  finally show ?thesis .
qed

lemma sort_value_Descending: "sort_value (Descending f) = field_value f"
  by (rule ext) simp

lemma aggregate_facets:
  assumes "fault e = None" "0 \<le> a" "0 < b"
  shows "aggregate e MoviesColl
           ([Match (CastIn names), Sort (Descending NumReviews)] @ [Skip a, Limit b, facet_stage])
     = Inr [FacetDoc
         [(''runtime'', bucket_stage Runtime [0, 60, 90, 120, 180]
             (take (nat b) (drop (nat a)
               (sort_descending (field_value NumReviews) (matching e (CastIn names)))))),
          (''rating'', bucket_stage Metacritic [0, 50, 70, 90, 100]
             (take (nat b) (drop (nat a)
               (sort_descending (field_value NumReviews) (matching e (CastIn names)))))),
          (''movies'',
             take (nat b) (drop (nat a)
               (sort_descending (field_value NumReviews) (matching e (CastIn names)))))]]"
  using assms
  by (simp add: aggregate_def run_def collection_docs_def facet_stage_def matching_def
        sort_value_Descending)

lemma aggregate_counting:
  assumes "fault e = None"
  shows "aggregate e MoviesColl ([Match (CastIn names), Sort (Descending NumReviews)] @ [Count])
     = Inr (if matching e (CastIn names) = [] then []
            else [CountDoc (length (matching e (CastIn names)))])"
  using assms
  by (simp add: aggregate_def run_def collection_docs_def matching_def)

lemma faceted_empty:
  assumes "cast_key fs = Some names" "fault e = None" "0 \<le> page" "0 < k"
    "matching e (CastIn names) = []"
  shows "get_movies_faceted e fs page k = Inl IndexError"
proof -
  have "0 \<le> k * page" using assms by simp
  then show ?thesis
    using assms
    by (simp add: get_movies_faceted_def aggregate_facets aggregate_counting bind_result_def
          first_def del: append.simps)
qed

lemma faceted_result:
  assumes "cast_key fs = Some names" "fault e = None" "0 \<le> page" "0 < k"
    "matching e (CastIn names) \<noteq> []"
  shows "get_movies_faceted e fs page k
     = Inr (FacetDoc
         [(''runtime'', bucket_stage Runtime [0, 60, 90, 120, 180]
             (take (nat k) (drop (nat (k * page))
               (sort_descending (field_value NumReviews) (matching e (CastIn names)))))),
          (''rating'', bucket_stage Metacritic [0, 50, 70, 90, 100]
             (take (nat k) (drop (nat (k * page))
               (sort_descending (field_value NumReviews) (matching e (CastIn names)))))),
          (''movies'',
             take (nat k) (drop (nat (k * page))
               (sort_descending (field_value NumReviews) (matching e (CastIn names)))))],
        Some (int (length (matching e (CastIn names)))))"
proof -
  have "0 \<le> k * page" using assms by simp
  then show ?thesis
    using assms
    by (simp add: get_movies_faceted_def aggregate_facets aggregate_counting bind_result_def
          first_def del: append.simps)
qed

lemma faceted_fault:
  assumes "cast_key fs = Some names" "fault e = Some err"
  shows "get_movies_faceted e fs page k
     = Inl (Store (case err of OperationFailure m \<Rightarrow> OperationFailure too_large
                   | ConnectionFailure m \<Rightarrow> ConnectionFailure m))"
  using assms
  by (cases err) (simp_all add: get_movies_faceted_def aggregate_fault bind_result_def)

lemma aggregate_not_assertion: "aggregate e c p \<noteq> Inl (AssertionError msg)"
  by (simp add: aggregate_def split: option.splits sum.splits)

lemma bind_not_assertion:
  "r \<noteq> Inl (AssertionError m) \<Longrightarrow> (\<And>x. f x \<noteq> Inl (AssertionError m))
   \<Longrightarrow> bind_result r f \<noteq> Inl (AssertionError m)"
  by (cases r) (simp_all add: bind_result_def)

lemma first_not_assertion: "first xs \<noteq> Inl (AssertionError m)"
  by (simp add: first_def split: list.splits)

lemma resignal_not_assertion:
  "r \<noteq> Inl (AssertionError m) \<Longrightarrow>
   (case r of Inl (Store (OperationFailure msg)) \<Rightarrow> Inl (Store (OperationFailure t))
    | r' \<Rightarrow> r') \<noteq> Inl (AssertionError m)"
  by (auto split: sum.splits error.splits store_error.splits)

lemma faceted_not_assertion:
  assumes "cast_key fs = Some names"
  shows "get_movies_faceted e fs page k \<noteq> Inl (AssertionError msg)"
proof -
  have a: "bind_result (aggregate e MoviesColl p) first \<noteq> Inl (AssertionError msg)" for p
    by (rule bind_not_assertion) (simp_all add: aggregate_not_assertion first_not_assertion)
  have "bind_result (bind_result (aggregate e MoviesColl p) first)
          (\<lambda>movies. bind_result (bind_result (aggregate e MoviesColl q) first)
             (\<lambda>c. Inr (movies, get_count c))) \<noteq> Inl (AssertionError msg)" for p q
    by (intro bind_not_assertion a) simp
  then show ?thesis
    using assms
    by (simp add: get_movies_faceted_def Let_def resignal_not_assertion del: append.simps)
qed


lemma catalogue_fields:
  "movies catalogue = [big, cast_away, toy_story, heat]"
  "fault catalogue = None"
  "object_id catalogue = hex24"
  "text_score catalogue = title_score"
  "tie_rank catalogue = (\<lambda>c d. 0)"
  by (simp_all add: catalogue_def)

lemma hanks_matching:
  "matching catalogue (CastIn [''Tom Hanks'']) = [Movie big, Movie cast_away, Movie toy_story]"
  by (simp add: matching_def catalogue_fields big_def cast_away_def toy_story_def heat_def)

lemma hanks_sorted:
  "sort_descending (field_value NumReviews) [Movie big, Movie cast_away, Movie toy_story]
     = [Movie cast_away, Movie big, Movie toy_story]"
  by (simp add: sort_descending_def movie_field_def big_def cast_away_def toy_story_def)

lemma nobody_matching: "matching catalogue (CastIn [''Nobody'']) = []"
  by (simp add: matching_def catalogue_fields big_def cast_away_def toy_story_def heat_def)

lemma empty_cast_matching: "matching e (CastIn []) = []"
  by (simp add: matching_def list_ex_iff)

lemma cast_away_big_runtime:
  "bucket_stage Runtime [0, 60, 90, 120, 180] [Movie cast_away, Movie big]
     = [BucketDoc (Lower 90) 1, BucketDoc (Lower 120) 1]"
  by (simp add: bucket_stage_def bucket_of_def movie_field_def big_def cast_away_def)

lemma cast_away_big_rating:
  "bucket_stage Metacritic [0, 50, 70, 90, 100] [Movie cast_away, Movie big]
     = [BucketDoc (Lower 70) 2]"
  by (simp add: bucket_stage_def bucket_of_def movie_field_def big_def cast_away_def)

text \<open>
  C1, as the code has it. The \<^verbatim>\<open>$facet\<close> stage comes after \<^verbatim>\<open>$skip\<close> and \<^verbatim>\<open>$limit\<close>, so
  for a cast filter that matches something, a page number that is not negative and a
  positive page size, the counts of the runtime facet, and those of the rating facet, sum
  over all buckets, \<^verbatim>\<open>other\<close> included, to the number of movies on the requested page,
  which is the page size or what is left of the matches after the skipped ones. The
  number of all matches is the second component of the result.
\<close>

theorem facet_counts_sum_to_page:
  assumes "cast_key fs = Some names" and "fault e = None" and "0 \<le> page"
    and "0 < movies_per_page" and "matching e (CastIn names) \<noteq> []"
  shows "\<exists>facets.
     get_movies_faceted e fs page movies_per_page
       = Inr (facets, Some (int (length (matching e (CastIn names)))))
     \<and> facet_branch ''movies'' facets
       = take (nat movies_per_page) (drop (nat (movies_per_page * page))
           (sort_descending (field_value NumReviews) (matching e (CastIn names))))
     \<and> bucket_total ''runtime'' facets = length (facet_branch ''movies'' facets)
     \<and> bucket_total ''rating'' facets = length (facet_branch ''movies'' facets)
     \<and> length (facet_branch ''movies'' facets)
       = min (nat movies_per_page)
           (length (matching e (CastIn names)) - nat (movies_per_page * page))"
  unfolding faceted_result [OF assms]
  by (simp add: bucket_total_def bucket_stage_total)

theorem facet_counts_sum_to_page_witness:
  "\<exists>facets.
     get_movies_faceted catalogue (with_cast [''Tom Hanks'']) 1 2 = Inr (facets, Some 3)
     \<and> facet_branch ''movies'' facets = [Movie toy_story]
     \<and> bucket_total ''runtime'' facets = 1
     \<and> bucket_total ''rating'' facets = 1"
  using facet_counts_sum_to_page [of "with_cast [''Tom Hanks'']" "[''Tom Hanks'']" catalogue 1 2]
  by (auto simp: with_cast_def catalogue_fields hanks_matching hanks_sorted)

text \<open>
  C1, as stated, fails: three movies of the sample catalogue match the cast filter, and on
  the first page of size two the buckets of each facet sum to two.
\<close>

theorem facet_counts_not_total:
  "get_movies_faceted catalogue (with_cast [''Tom Hanks'']) 0 2 = Inr (hanks_first_page, Some 3)
   \<and> bucket_total ''runtime'' hanks_first_page = 2
   \<and> bucket_total ''rating'' hanks_first_page = 2"
proof -
  have "get_movies_faceted catalogue (with_cast [''Tom Hanks'']) 0 2
      = Inr (hanks_first_page, Some 3)"
    by (simp add: faceted_result [of _ "[''Tom Hanks'']"] with_cast_def catalogue_fields
          hanks_matching hanks_sorted hanks_first_page_def cast_away_big_runtime
          cast_away_big_rating)
  then show ?thesis
    by (simp add: bucket_total_def hanks_first_page_def)
qed

text \<open>
  C3, as the code has it. \<^verbatim>\<open>get_movies_faceted\<close> raises the \<^verbatim>\<open>AssertionError\<close> exactly
  when the filters have no \<^verbatim>\<open>cast\<close> key, and then it returns nothing. The guard tests only
  the presence of the key: with the key present, an empty list of names included, no
  \<^verbatim>\<open>AssertionError\<close> is raised.
\<close>

theorem faceted_guard:
  "(cast_key fs = None \<longrightarrow>
      get_movies_faceted e fs page movies_per_page
        = Inl (AssertionError ''No filters to pass to faceted search!''))
   \<and> (cast_key fs \<noteq> None \<longrightarrow>
      (\<forall>msg. get_movies_faceted e fs page movies_per_page \<noteq> Inl (AssertionError msg)))"
  by (auto simp: faceted_not_assertion) (simp add: get_movies_faceted_def)

theorem faceted_guard_witness:
  "get_movies_faceted catalogue no_filters 0 20
     = Inl (AssertionError ''No filters to pass to faceted search!'')
   \<and> get_movies_faceted catalogue (with_cast [''Tom Hanks'']) 0 20
     \<noteq> Inl (AssertionError ''No filters to pass to faceted search!'')"
  using faceted_guard [of no_filters catalogue 0 20]
    faceted_guard [of "with_cast [''Tom Hanks'']" catalogue 0 20]
  by (simp add: no_filters_def with_cast_def)

text \<open>
  C3, as stated, fails: with a \<^verbatim>\<open>cast\<close> key that holds the empty list the call ends in an
  \<^verbatim>\<open>IndexError\<close>, not in the assertion failure.
\<close>

theorem empty_cast_is_no_assertion:
  "get_movies_faceted catalogue (with_cast []) 0 20 = Inl IndexError"
  by (simp add: faceted_empty [of _ "[]"] with_cast_def catalogue_fields empty_cast_matching)

text \<open>
  C10. When the \<^verbatim>\<open>cast\<close> key is present, the store answers, the page number is not
  negative and the page size is positive, but no movie matches the filter, then the
  \<^verbatim>\<open>$count\<close> pipeline gives no document and indexing its empty result raises
  \<^verbatim>\<open>IndexError\<close>, which the handler for \<^verbatim>\<open>OperationFailure\<close> does not catch.
\<close>

theorem faceted_no_match_index_error:
  assumes "cast_key fs = Some names" and "fault e = None" and "0 \<le> page"
    and "0 < movies_per_page" and "matching e (CastIn names) = []"
  shows "get_movies_faceted e fs page movies_per_page = Inl IndexError"
  using assms by (rule faceted_empty)

theorem faceted_no_match_index_error_witness:
  "get_movies_faceted catalogue (with_cast [''Nobody'']) 0 20 = Inl IndexError"
  using faceted_no_match_index_error [of "with_cast [''Nobody'']" "[''Nobody'']" catalogue 0 20]
  by (simp add: with_cast_def catalogue_fields nobody_matching)

lemma resignal_only_fixed:
  "(case r of Inl (Store (OperationFailure msg)) \<Rightarrow> Inl (Store (OperationFailure t))
    | r' \<Rightarrow> r') = Inl (Store (OperationFailure m)) \<Longrightarrow> m = t"
  by (auto split: sum.splits error.splits store_error.splits)

lemma faceted_only_too_large:
  "get_movies_faceted e fs page k = Inl (Store (OperationFailure m)) \<Longrightarrow> m = too_large"
proof (cases "cast_key fs")
  case None
  assume "get_movies_faceted e fs page k = Inl (Store (OperationFailure m))"
  with None show ?thesis
    by (simp add: get_movies_faceted_def)
next
  case (Some names)
  assume "get_movies_faceted e fs page k = Inl (Store (OperationFailure m))"
  with Some show ?thesis
    by (simp add: get_movies_faceted_def Let_def del: append.simps)
       (erule resignal_only_fixed)
qed

lemma faceted_aggregate_fails:
  assumes "cast_key fs = Some names"
    and "aggregate e MoviesColl
           ([Match (CastIn names), Sort (Descending NumReviews)]
            @ [Skip (k * page), Limit k, facet_stage]) = Inl (Store err)"
  shows "get_movies_faceted e fs page k
     = Inl (Store (case err of OperationFailure m \<Rightarrow> OperationFailure too_large
                   | ConnectionFailure m \<Rightarrow> ConnectionFailure m))"
  using assms
  by (cases err)
     (simp_all add: get_movies_faceted_def bind_result_def Let_def del: append.simps)

lemma aggregate_limit_refused:
  "fault e = None \<Longrightarrow> 0 \<le> a \<Longrightarrow> b \<le> 0 \<Longrightarrow>
   aggregate e MoviesColl
     ([Match (CastIn names), Sort (Descending NumReviews)] @ [Skip a, Limit b, facet_stage])
     = Inl (Store (OperationFailure ''the limit must be positive''))"
  by (simp add: aggregate_def run_def)

text \<open>
  C7, as the code has it. Whenever the fan-out aggregation fails with an
  \<^verbatim>\<open>OperationFailure\<close>, whatever its cause (a store that refuses the command, a stage the
  server rejects, a limit it exceeds), \<^verbatim>\<open>get_movies_faceted\<close> raises an \<^verbatim>\<open>OperationFailure\<close>
  with the fixed message about results too large to sort; no \<^verbatim>\<open>OperationFailure\<close> with
  another message ever leaves the function; and when the aggregation fails with a store
  failure of another class, that failure propagates unchanged.
\<close>

theorem operation_failure_resignalled:
  assumes "cast_key fs = Some names"
  shows "(aggregate e MoviesColl
            [Match (CastIn names), Sort (Descending NumReviews),
             Skip (movies_per_page * page), Limit movies_per_page, facet_stage]
          = Inl (Store (OperationFailure msg))
        \<longrightarrow> get_movies_faceted e fs page movies_per_page
            = Inl (Store (OperationFailure too_large)))
     \<and> (aggregate e MoviesColl
            [Match (CastIn names), Sort (Descending NumReviews),
             Skip (movies_per_page * page), Limit movies_per_page, facet_stage]
          = Inl (Store (ConnectionFailure msg))
        \<longrightarrow> get_movies_faceted e fs page movies_per_page
            = Inl (Store (ConnectionFailure msg)))
     \<and> (\<forall>m. get_movies_faceted e fs page movies_per_page = Inl (Store (OperationFailure m))
        \<longrightarrow> m = too_large)"
  using faceted_aggregate_fails [OF assms, of e movies_per_page page "OperationFailure msg"]
    faceted_aggregate_fails [OF assms, of e movies_per_page page "ConnectionFailure msg"]
    faceted_only_too_large [of e fs page movies_per_page]
  by simp

theorem operation_failure_resignalled_witness:
  "get_movies_faceted catalogue (with_cast [''Tom Hanks'']) 0 0
     = Inl (Store (OperationFailure too_large))
   \<and> get_movies_faceted (catalogue\<lparr>fault := Some (ConnectionFailure ''connection refused'')\<rparr>)
        (with_cast [''Tom Hanks'']) 0 20
     = Inl (Store (ConnectionFailure ''connection refused''))"
proof -
  have c: "cast_key (with_cast [''Tom Hanks'']) = Some [''Tom Hanks'']"
    by (simp add: with_cast_def)
  have r: "aggregate catalogue MoviesColl
        [Match (CastIn [''Tom Hanks'']), Sort (Descending NumReviews),
         Skip (0 * 0), Limit 0, facet_stage]
      = Inl (Store (OperationFailure ''the limit must be positive''))"
    using aggregate_limit_refused [of catalogue 0 0 "[''Tom Hanks'']"]
    by (simp add: catalogue_fields)
  have d: "aggregate (catalogue\<lparr>fault := Some (ConnectionFailure ''connection refused'')\<rparr>)
        MoviesColl
        [Match (CastIn [''Tom Hanks'']), Sort (Descending NumReviews),
         Skip (20 * 0), Limit 20, facet_stage]
      = Inl (Store (ConnectionFailure ''connection refused''))"
    by (simp add: aggregate_fault)
  show ?thesis
    using operation_failure_resignalled
        [OF c, where e = catalogue and movies_per_page = 0 and page = 0
           and msg = "''the limit must be positive''"]
      operation_failure_resignalled
        [OF c, where e = "catalogue\<lparr>fault := Some (ConnectionFailure ''connection refused'')\<rparr>"
           and movies_per_page = 20 and page = 0 and msg = "''connection refused''"]
      r d
    by simp
qed

text \<open>
  C7, as stated, fails: an \<^verbatim>\<open>OperationFailure\<close> that has nothing to do with resource
  limits, here a refused authorisation, does not propagate unchanged; it comes out as the
  failure about results too large to sort.
\<close>

theorem other_operation_failure_not_propagated:
  "get_movies_faceted
      (catalogue\<lparr>fault := Some (OperationFailure ''not authorized on sample_mflix'')\<rparr>)
      (with_cast [''Tom Hanks'']) 0 20
     = Inl (Store (OperationFailure
         ''Results too large to sort, be more restrictive in filter''))
   \<and> get_movies_faceted
      (catalogue\<lparr>fault := Some (OperationFailure ''not authorized on sample_mflix'')\<rparr>)
      (with_cast [''Tom Hanks'']) 0 20
     \<noteq> Inl (Store (OperationFailure ''not authorized on sample_mflix''))"
  by (simp add: faceted_fault [of _ "[''Tom Hanks'']" _ "OperationFailure ''not authorized on sample_mflix''"]
        with_cast_def too_large_def)

section \<open>Paginated retrieval\<close>

lemma sorted_docs_sorted:
  "cur_sort c = Some s \<Longrightarrow>
   mset (sorted_docs e c)
     = mset (map (project_doc e (cur_query c) (cur_projection c)) (matching e (cur_query c)))
   \<and> sorted_wrt (\<lambda>a b. sort_value s b \<le> sort_value s a) (sorted_docs e c)"
  by (simp add: sorted_docs_def sorted_sort_descending)

lemma sorted_docs_same_rank:
  assumes "\<And>c c'. tie_rank e c = tie_rank e c'"
  shows "sorted_docs e
           \<lparr>cur_query = q, cur_projection = p, cur_sort = Some s, cur_skip = a, cur_limit = k\<rparr>
       = sorted_docs e (sort_cursor (find_docs q p) s)"
  using assms [of "\<lparr>cur_query = q, cur_projection = p, cur_sort = Some s, cur_skip = a,
                    cur_limit = k\<rparr>" "sort_cursor (find_docs q p) s"]
  by (simp add: sorted_docs_def sort_cursor_def find_docs_def)

lemma list_cursor_unpaged:
  "fault e = None \<Longrightarrow>
   list_cursor e (sort_cursor (find_docs q p) s)
     = Inr (sorted_docs e (sort_cursor (find_docs q p) s))"
  by (simp add: list_cursor_def sort_cursor_def find_docs_def)

lemma get_movies_page:
  assumes "fault e = None" and "0 \<le> page" and "0 < k"
    and "build_query_sort_project fs = (q, s, p)"
  shows "get_movies e fs page k
     = Inr (take (nat k) (drop (nat k * nat page)
              (sorted_docs e
                 \<lparr>cur_query = q, cur_projection = p, cur_sort = Some s,
                  cur_skip = k * page, cur_limit = k\<rparr>)),
            if page = 0 then int (length (matching e q)) else 0)"
proof -
  have nn: "(k * page < 0) = False"
    using assms by (simp add: mult_less_0_iff)
  have sk: "nat (k * page) = nat k * nat page"
    using assms by (simp add: nat_mult_distrib)
  show ?thesis
    using assms
    by (simp add: nn sk get_movies_def count_documents_def bind_result_def list_cursor_def
          sort_cursor_def find_docs_def skip_cursor_def limit_cursor_def Let_def)
qed

lemma concat_pages:
  "concat (map (\<lambda>i. take k (drop (k * i) xs)) [0..<n]) = take (k * n) xs"
proof (induction n)
  case 0
  show ?case by simp
next
  case (Suc n)
  have "k * Suc n = k * n + k" by simp
  then have "take (k * Suc n) xs = take (k * n) xs @ take k (drop (k * n) xs)"
    by (simp only: take_add)
  with Suc show ?case by (simp del: mult_Suc_right)
qed

lemma project_doc_None [simp]: "project_doc e q None d = d"
  by (cases q; cases d) simp_all

lemma with_cast_compiled:
  "build_query_sort_project (with_cast names) = (CastIn names, Descending NumReviews, None)"
  by (simp add: with_cast_def build_query_sort_project_def no_filters_def)

lemma catalogue_sorted_docs:
  "sorted_docs catalogue
      \<lparr>cur_query = CastIn [''Tom Hanks''], cur_projection = None,
       cur_sort = Some (Descending NumReviews), cur_skip = a, cur_limit = k\<rparr>
     = [Movie cast_away, Movie big, Movie toy_story]"
  by (simp add: sorted_docs_def catalogue_fields hanks_matching sort_value_Descending
        hanks_sorted)

lemma catalogue_nobody_docs:
  "sorted_docs catalogue
      \<lparr>cur_query = CastIn [''Nobody''], cur_projection = None,
       cur_sort = Some (Descending NumReviews), cur_skip = a, cur_limit = k\<rparr>
     = []"
  by (simp add: sorted_docs_def nobody_matching)

text \<open>
  C2, as the code has it. For every filters dictionary and every positive page size, when
  the store answers, the fetch of page 0 carries the exact number of documents that match
  the compiled predicate, and the fetch of any page from 1 on carries the integer 0 in
  the place of the count: the place is not left empty.
\<close>

theorem count_only_on_first_page:
  assumes "fault e = None" and "0 < k" and "build_query_sort_project fs = (q, s, p)"
  shows "(\<exists>ms. get_movies e fs 0 k = Inr (ms, int (length (matching e q))))
     \<and> (1 \<le> page \<longrightarrow> (\<exists>ms. get_movies e fs page k = Inr (ms, 0)))"
  using get_movies_page [OF assms(1) _ assms(2,3), of 0]
    get_movies_page [OF assms(1) _ assms(2,3), of page]
  by auto

theorem count_only_on_first_page_witness:
  "(\<exists>ms. get_movies catalogue (with_cast [''Tom Hanks'']) 0 2 = Inr (ms, 3))
   \<and> (\<exists>ms. get_movies catalogue (with_cast [''Tom Hanks'']) 1 2 = Inr (ms, 0))"
  using count_only_on_first_page
    [of catalogue 2 "with_cast [''Tom Hanks'']" "CastIn [''Tom Hanks'']"
        "Descending NumReviews" None 1]
  by (simp add: catalogue_fields with_cast_compiled hanks_matching)

text \<open>
  C2, as stated, fails: the count is not absent on a later page. Page 1 of the movies with
  Tom Hanks carries the count 0, the very value page 0 carries as the exact count of a
  filter that matches nothing.
\<close>

theorem later_page_count_is_zero:
  "get_movies catalogue (with_cast [''Tom Hanks'']) 1 2 = Inr ([Movie toy_story], 0)
   \<and> get_movies catalogue (with_cast [''Nobody'']) 0 2 = Inr ([], 0)"
  by (simp add: get_movies_page [OF _ _ _ with_cast_compiled] catalogue_fields
        catalogue_sorted_docs catalogue_nobody_docs nobody_matching)

lemma splash_punchline: "splash \<noteq> punchline"
  by (simp add: splash_def punchline_def)

lemma tied_matching:
  "movies e = [splash, punchline] \<Longrightarrow>
   matching e (CastIn [''Tom Hanks'']) = [Movie splash, Movie punchline]"
  by (simp add: matching_def splash_def punchline_def)

lemma tied_keys:
  "sort_descending (field_value NumReviews) [Movie splash, Movie punchline]
     = [Movie splash, Movie punchline]"
  "sort_descending (field_value NumReviews) [Movie punchline, Movie splash]
     = [Movie punchline, Movie splash]"
  by (simp_all add: sort_descending_def movie_field_def splash_def punchline_def)

lemma steady_sorted_docs:
  "sorted_docs steady
      \<lparr>cur_query = CastIn [''Tom Hanks''], cur_projection = None,
       cur_sort = Some (Descending NumReviews), cur_skip = a, cur_limit = k\<rparr>
     = [Movie punchline, Movie splash]"
proof -
  have "movies steady = [splash, punchline]"
    and "tie_rank steady = (\<lambda>c d. if d = Movie punchline then 0 else 1)"
    by (simp_all add: steady_def)
  then show ?thesis
    using splash_punchline
    by (simp add: sorted_docs_def tied_matching sort_value_Descending tied_keys)
qed

lemma fickle_sorted_docs:
  "sorted_docs fickle
      \<lparr>cur_query = CastIn [''Tom Hanks''], cur_projection = None,
       cur_sort = Some (Descending NumReviews), cur_skip = a, cur_limit = k\<rparr>
     = (if a = 0 then [Movie splash, Movie punchline] else [Movie punchline, Movie splash])"
proof -
  have "movies fickle = [splash, punchline]"
    and "tie_rank fickle =
      (\<lambda>c d. if cur_skip c = 0 then (if d = Movie splash then 0 else 1)
              else (if d = Movie punchline then 0 else 1))"
    by (simp_all add: fickle_def)
  then show ?thesis
    using splash_punchline
    by (simp add: sorted_docs_def tied_matching sort_value_Descending tied_keys)
qed

text \<open>
  C8, as the code has it. For every filters dictionary, a fixed catalogue, every positive
  page size \<open>k\<close> and a store that returns documents of equal sort key in the same order
  in every query: the unpaged, sorted cursor gives a list that holds exactly the matches
  of the compiled predicate, sorted; page \<open>i\<close> is the \<open>i\<close>-th block of \<open>k\<close> documents of
  that list; so the movies of the pages \<open>0, \<dots>, n - 1\<close>, put end to end, are the first
  \<open>n * k\<close> documents of that list, and the whole list, with nothing twice and nothing
  left out, as soon as \<open>n * k\<close> reaches its length.
\<close>

theorem pages_concatenate:
  assumes "fault e = None" and "0 < k" and "build_query_sort_project fs = (q, s, p)"
    and "\<And>c c'. tie_rank e c = tie_rank e c'"
  shows "\<exists>full.
       list_cursor e (sort_cursor (find_docs q p) s) = Inr full
     \<and> mset full = mset (map (project_doc e q p) (matching e q))
     \<and> sorted_wrt (\<lambda>a b. sort_value s b \<le> sort_value s a) full
     \<and> (\<forall>i. \<exists>c. get_movies e fs (int i) k = Inr (take (nat k) (drop (nat k * i) full), c))
     \<and> concat (map (\<lambda>i. movies_of (get_movies e fs (int i) k)) [0..<n])
         = take (nat k * n) full
     \<and> (length full \<le> nat k * n \<longrightarrow>
          concat (map (\<lambda>i. movies_of (get_movies e fs (int i) k)) [0..<n]) = full)"
proof -
  let ?full = "sorted_docs e (sort_cursor (find_docs q p) s)"
  have pg: "get_movies e fs (int i) k
      = Inr (take (nat k) (drop (nat k * i) ?full),
             if int i = 0 then int (length (matching e q)) else 0)" for i
    using get_movies_page [OF assms(1) _ assms(2,3), of "int i"]
    by (simp add: sorted_docs_same_rank [OF assms(4)])
  have "movies_of (get_movies e fs (int i) k) = take (nat k) (drop (nat k * i) ?full)" for i
    by (simp add: pg movies_of_def)
  then have cc: "concat (map (\<lambda>i. movies_of (get_movies e fs (int i) k)) [0..<n])
      = take (nat k * n) ?full"
    by (simp add: concat_pages)
  have so: "mset ?full = mset (map (project_doc e q p) (matching e q))
      \<and> sorted_wrt (\<lambda>a b. sort_value s b \<le> sort_value s a) ?full"
    using sorted_docs_sorted [of "sort_cursor (find_docs q p) s" s e]
    by (simp add: sort_cursor_def find_docs_def)
  show ?thesis
    using list_cursor_unpaged [OF assms(1), of q p s] pg cc so by simp
qed

theorem pages_concatenate_witness:
  "concat (map (\<lambda>i. movies_of (get_movies steady (with_cast [''Tom Hanks'']) (int i) 1))
      [0..<2])
     = [Movie punchline, Movie splash]"
proof -
  have f: "fault steady = None"
    by (simp add: steady_def)
  have r: "\<And>c c'. tie_rank steady c = tie_rank steady c'"
    by (simp add: steady_def)
  have u: "list_cursor steady
        (sort_cursor (find_docs (CastIn [''Tom Hanks'']) None) (Descending NumReviews))
      = Inr [Movie punchline, Movie splash]"
    by (simp add: list_cursor_def sort_cursor_def find_docs_def steady_sorted_docs f)
  have c: "build_query_sort_project (with_cast [''Tom Hanks''])
      = (CastIn [''Tom Hanks''], Descending NumReviews, None)"
    by (rule with_cast_compiled)
  from pages_concatenate [where e = steady and k = 1 and n = 2, OF f _ c r]
  show ?thesis
    by (auto simp: u)
qed

text \<open>
  C8, as stated, fails. The two movies tie on the sort key, and the store returns them in
  one order for the query of page 0 and in the other for the query of page 1. The two
  pages of size one, put end to end, hold the first movie twice and the second not at
  all, although the catalogue does not change.
\<close>

theorem pages_repeat_under_ties:
  "concat (map (\<lambda>i. movies_of (get_movies fickle (with_cast [''Tom Hanks'']) (int i) 1))
      [0..<2])
     = [Movie splash, Movie splash]
   \<and> list_cursor fickle
        (sort_cursor (find_docs (CastIn [''Tom Hanks'']) None) (Descending NumReviews))
     = Inr [Movie splash, Movie punchline]"
proof -
  have f: "fault fickle = None"
    by (simp add: fickle_def)
  have p0: "get_movies fickle (with_cast [''Tom Hanks'']) (int 0) 1 = Inr ([Movie splash], 2)"
    using tied_matching [of fickle]
    by (simp add: get_movies_page [OF f _ _ with_cast_compiled] fickle_sorted_docs)
       (simp add: fickle_def)
  have p1: "get_movies fickle (with_cast [''Tom Hanks'']) (int 1) 1 = Inr ([Movie splash], 0)"
    by (simp add: get_movies_page [OF f _ _ with_cast_compiled] fickle_sorted_docs)
  have "[0..<2] = [0, 1]"
    by (simp add: upt_rec)
  then have "concat (map (\<lambda>i. movies_of (get_movies fickle (with_cast [''Tom Hanks''])
        (int i) 1)) [0..<2]) = [Movie splash, Movie splash]"
    using p0 p1 by (simp add: movies_of_def)
  moreover have "list_cursor fickle
        (sort_cursor (find_docs (CastIn [''Tom Hanks'']) None) (Descending NumReviews))
      = Inr [Movie splash, Movie punchline]"
    by (simp add: list_cursor_def sort_cursor_def find_docs_def fickle_sorted_docs f)
  ultimately show ?thesis by simp
qed

section \<open>Ranking the commenters\<close>

lemma insort_key_embed:
  assumes "\<And>a b. h a \<le> h b \<longleftrightarrow> a \<le> b"
  shows "insort_key (\<lambda>y. h (f y)) x xs = insort_key f x xs"
  by (induction xs) (simp_all add: assms)

lemma sort_key_embed:
  assumes "\<And>a b. h a \<le> h b \<longleftrightarrow> a \<le> b"
  shows "sort_key (\<lambda>y. h (f y)) xs = sort_key f xs"
  by (induction xs) (simp_all add: insort_key_embed [of h, OF assms])

lemma sort_descending_embed:
  assumes "\<And>a b. h a \<le> h b \<longleftrightarrow> a \<le> b"
  shows "sort_descending (\<lambda>y. h (f y)) xs = sort_descending f xs"
  by (simp add: sort_descending_def sort_key_embed [of h, OF assms])

lemma remdups_map_Some: "remdups (map Some xs) = map Some (remdups xs)"
  by (induction xs) auto

lemma group_comments:
  "group_by_email (map Comment cs)
     = map (\<lambda>a. GroupDoc (Some a) (length (filter (\<lambda>c. c_email c = a) cs)))
         (remdups (map c_email cs))"
proof -
  have 1: "map doc_email (map Comment cs) = map Some (map c_email cs)"
    by simp
  have 2: "length (filter (\<lambda>d. doc_email d = Some a) (map Comment cs))
      = length (filter (\<lambda>c. c_email c = a) cs)" for a
    by (simp add: filter_map comp_def)
  show ?thesis
    unfolding group_by_email_def 1 remdups_map_Some
    by (simp add: 2 comp_def)
qed

lemma commenters_sorted:
  assumes "fault e = None"
  shows "most_active_commenters e
     = Inr (map (\<lambda>a. GroupDoc (Some a) (comments_by e a))
         (take 20 (sort_descending (comments_by e) (remdups (map c_email (comments e))))))"
proof -
  have "sort_descending (field_value CountField)
          (map (\<lambda>a. GroupDoc (Some a) (comments_by e a)) xs)
      = map (\<lambda>a. GroupDoc (Some a) (comments_by e a)) (sort_descending (comments_by e) xs)"
    for xs
    by (simp add: sort_descending_map
          sort_descending_embed [of "\<lambda>n. Some (int n)" "comments_by e"])
  then show ?thesis
    using assms
    by (simp add: most_active_commenters_def aggregate_def run_def collection_docs_def
          group_comments sort_value_Descending take_map flip: comments_by_def)
qed

lemma hd_sort_descending:
  assumes "a \<in> set xs" and "\<And>b. b \<in> set xs \<Longrightarrow> b \<noteq> a \<Longrightarrow> f b < f a"
  shows "\<exists>rest. sort_descending f xs = a # rest"
proof (cases "sort_descending f xs")
  case Nil
  with assms(1) show ?thesis by simp
next
  case (Cons y ys)
  have s: "sorted_wrt (\<lambda>u v. f v \<le> f u) (y # ys)"
    using sorted_sort_descending [of f xs] Cons by simp
  have mem: "set (y # ys) = set xs"
    using set_sort_descending [of f xs] Cons by simp
  have "y = a"
  proof (rule ccontr)
    assume "y \<noteq> a"
    with mem have "f y < f a" using assms(2) by auto
    moreover from mem assms(1) \<open>y \<noteq> a\<close> have "a \<in> set ys" by auto
    with s have "f a \<le> f y" by simp
    ultimately show False by simp
  qed
  with Cons show ?thesis by simp
qed


lemma distinct_sort_descending [simp]: "distinct (sort_descending f xs) = distinct xs"
  by (simp add: sort_descending_def)

lemma commenter_known: "0 < comments_by e a \<Longrightarrow> a \<in> set (map c_email (comments e))"
proof -
  assume "0 < comments_by e a"
  then have "filter (\<lambda>c. c_email c = a) (comments e) \<noteq> []"
    by (auto simp: comments_by_def)
  then obtain c where "c \<in> set (comments e)" "c_email c = a"
    by (auto simp: filter_empty_conv)
  then show ?thesis by auto
qed

lemma count_authored:
  "length (filter (\<lambda>c. c_email c = b) (map (\<lambda>n. comment_by (g n) m a (d n)) xs))
     = (if a = b then length xs else 0)"
  by (simp add: filter_map comp_def comment_by_def)

lemma forum_counts:
  "comments_by forum b =
     (if b = ''ann@example.com'' then 50 else if b = ''bob@example.com'' then 5
      else if b = ''carol@example.com'' then 3 else 0)"
proof -
  have "comments_by forum b
      = (if ''ann@example.com'' = b then 50 else 0)
        + ((if ''bob@example.com'' = b then 5 else 0)
           + (if ''carol@example.com'' = b then 3 else 0))"
    unfolding comments_by_def forum_def env.simps filter_append length_append count_authored
    by (simp only: length_upt) simp
  then show ?thesis by auto
qed

text \<open>
  C9. \<^verbatim>\<open>most_active_commenters\<close> gives one document for each email that wrote a comment,
  with the number of comments of that email, in descending order of that number, cut
  after the first 20. In particular an email with 50 comments, when every other email has
  at most 5, comes first, with the count 50.
\<close>

theorem commenter_ranking:
  assumes "fault e = None"
  shows "(\<exists>ranked.
        most_active_commenters e
          = Inr (map (\<lambda>a. GroupDoc (Some a) (comments_by e a)) (take 20 ranked))
      \<and> distinct ranked
      \<and> set ranked = c_email ` set (comments e)
      \<and> sorted_wrt (\<lambda>a b. comments_by e b \<le> comments_by e a) ranked)
    \<and> (comments_by e a = 50 \<and> (\<forall>b. b \<noteq> a \<longrightarrow> comments_by e b \<le> 5)
        \<longrightarrow> (\<exists>rest. most_active_commenters e = Inr (GroupDoc (Some a) 50 # rest)))"
proof (intro conjI impI)
  let ?ranked = "sort_descending (comments_by e) (remdups (map c_email (comments e)))"
  show "\<exists>ranked.
        most_active_commenters e
          = Inr (map (\<lambda>a. GroupDoc (Some a) (comments_by e a)) (take 20 ranked))
      \<and> distinct ranked
      \<and> set ranked = c_email ` set (comments e)
      \<and> sorted_wrt (\<lambda>a b. comments_by e b \<le> comments_by e a) ranked"
    using commenters_sorted [OF assms] sorted_sort_descending [of "comments_by e"]
    by (intro exI [of _ ?ranked]) simp
  assume dom: "comments_by e a = 50 \<and> (\<forall>b. b \<noteq> a \<longrightarrow> comments_by e b \<le> 5)"
  then have "a \<in> set (remdups (map c_email (comments e)))"
    using commenter_known [of e a] by simp
  moreover have "comments_by e b < comments_by e a" if "b \<noteq> a" for b
  proof -
    from dom that have "comments_by e b \<le> 5" by simp
    with dom show ?thesis by simp
  qed
  ultimately obtain rest where "?ranked = a # rest"
    using hd_sort_descending [of a _ "comments_by e"] by blast
  with dom show "\<exists>rest. most_active_commenters e = Inr (GroupDoc (Some a) 50 # rest)"
    by (simp add: commenters_sorted [OF assms])
qed

theorem commenter_ranking_witness:
  "\<exists>rest. most_active_commenters forum = Inr (GroupDoc (Some ''ann@example.com'') 50 # rest)"
  using commenter_ranking [of forum "''ann@example.com''"]
  by (simp add: forum_counts) (simp add: forum_def)

end
